theory Spec2Isabelle
  imports Complex_Main
begin

section \<open>Data model of the classification notebook\<close>

text \<open>
  The notebook \<^verbatim>\<open>document-intelligence-embeddings.ipynb\<close> classifies every page of a
  document by comparing the page's embedding with the embeddings of a fixed list of
  categories (cell 21) and scores the outcome against a hand-written expectation
  (cells 7 and 23). Python floats are modelled as real numbers, Python lists as HOL lists,
  and every exception the cell can raise as a value of \<open>error\<close>.
\<close>

datatype error = NameError | ValueError | IndexError | InvalidInput

text \<open>
  \<^verbatim>\<open>Classification(page_number=..., classification=..., similarity=...)\<close>, the record the
  loop appends for every page.
\<close>

record Classification =
  page_number :: nat
  classification :: string
  similarity :: real

text \<open>
  One entry of the list \<^verbatim>\<open>classifications\<close> of cell 9, a dict with the keys
  \<^verbatim>\<open>classification\<close>, \<^verbatim>\<open>description\<close>, \<^verbatim>\<open>keywords\<close> and, after cell 17,
  \<^verbatim>\<open>embedding\<close>. The fields carry the prefix \<open>cls\<close> (the comprehension variable of
  cell 21) to keep them apart from the fields of \<open>Classification\<close>.
\<close>

record category =
  cls_classification :: string
  cls_description :: string
  cls_keywords :: "string list"
  cls_embedding :: "real list"

text \<open>
  The variables of cell 21 that live across iterations of the loop: the result list, the
  local \<^verbatim>\<open>similarity\<close> and the local \<^verbatim>\<open>best_similarity\<close>. A variable that has not been
  assigned yet is \<open>None\<close>; reading it raises \<open>NameError\<close>. The other locals
  (\<^verbatim>\<open>classification\<close>, \<^verbatim>\<open>page_vector\<close>, \<^verbatim>\<open>similarities\<close>, \<^verbatim>\<open>best_match_idx\<close>) are
  assigned in an iteration before that iteration reads them, so they are bound locally in
  the loop body.
\<close>

record loop_state =
  document_classifications :: "Classification list"
  similarity_var :: "real option"
  best_similarity :: "real option"

section \<open>Cosine similarity\<close>

definition dot :: "real list \<Rightarrow> real list \<Rightarrow> real" where
  "dot a b = sum_list (map (\<lambda>(x, y). x * y) (zip a b))"

definition magnitude :: "real list \<Rightarrow> real" where
  "magnitude a = sqrt (dot a a)"

text \<open>
  Modelled from the spec: \<^verbatim>\<open>cosine_similarity\<close> is imported from
  \<^verbatim>\<open>sklearn.metrics.pairwise\<close> and its body is not part of the repository. The spec gives
  \<open>sim(a,b) = dot(a,b) / (|a| * |b|)\<close>, defined to be \<open>0\<close> if either vector has zero
  magnitude.
\<close>

definition sim :: "real list \<Rightarrow> real list \<Rightarrow> real" where
  "sim a b =
     (if magnitude a = 0 \<or> magnitude b = 0 then 0
      else dot a b / (magnitude a * magnitude b))"

text \<open>
  Modelled from the spec: the call \<^verbatim>\<open>cosine_similarity(page_vector, classification_matrix)[0]\<close>
  compares one page vector with every row of the category matrix. The spec's error
  taxonomy makes a page and a category embedding of different lengths a
  \<open>DimensionMismatch\<close> that fails fast; the library raises \<open>ValueError\<close> for it, as it
  does for a matrix without rows.
\<close>

definition cosine_similarity :: "real list \<Rightarrow> real list list \<Rightarrow> error + real list" where
  "cosine_similarity page_vector classification_matrix =
     (if classification_matrix = [] \<or>
         list_ex (\<lambda>row. length row \<noteq> length page_vector) classification_matrix
      then Inl ValueError
      else Inr (map (sim page_vector) classification_matrix))"

section \<open>Selecting the best match\<close>

text \<open>
  Modelled from the spec: \<^verbatim>\<open>np.argmax\<close> is numpy's. It scans the array once, keeps the
  index of the largest value seen so far and replaces it only by a strictly larger one, so
  that the first occurrence of the maximum wins (the spec: ties broken by earliest index);
  on an empty array it raises \<open>ValueError\<close>.
\<close>

fun argmax_from :: "real list \<Rightarrow> nat \<Rightarrow> nat \<Rightarrow> real \<Rightarrow> nat" where
  "argmax_from [] i best_i best_v = best_i"
| "argmax_from (x # xs) i best_i best_v =
     (if best_v < x then argmax_from xs (Suc i) i x
      else argmax_from xs (Suc i) best_i best_v)"

definition argmax :: "real list \<Rightarrow> error + nat" where
  "argmax xs = (case xs of [] \<Rightarrow> Inl ValueError | x # rest \<Rightarrow> Inr (argmax_from rest 1 0 x))"

text \<open>Python's \<^verbatim>\<open>xs[i]\<close> for a non-negative index: out of range it raises \<open>IndexError\<close>.\<close>

definition getitem :: "'a list \<Rightarrow> nat \<Rightarrow> error + 'a" where
  "getitem xs i = (if i < length xs then Inr (xs ! i) else Inl IndexError)"

text \<open>
  What the claims call the best category: position \<open>k\<close> holds a maximum of the
  similarities, and every earlier position holds a strictly smaller value. This predicate
  follows the spec's words, not the code.
\<close>

definition is_best_match :: "real list \<Rightarrow> nat \<Rightarrow> bool" where
  "is_best_match similarities k \<longleftrightarrow>
     k < length similarities \<and>
     list_all (\<lambda>s. s \<le> similarities ! k) similarities \<and>
     list_all (\<lambda>s. s < similarities ! k) (take k similarities)"

section \<open>The classification loop (cell 21)\<close>

definition similarity_threshold :: real where
  "similarity_threshold = 6 / 10"

text \<open>
  The \<^verbatim>\<open>append\<close> that ends every iteration. It reads \<^verbatim>\<open>best_similarity\<close>, not
  \<^verbatim>\<open>similarity\<close>.
\<close>

definition append_classification :: "nat \<Rightarrow> string \<Rightarrow> loop_state \<Rightarrow> error + loop_state" where
  "append_classification idx label st =
     (case best_similarity st of
        None \<Rightarrow> Inl NameError
      | Some s \<Rightarrow>
          Inr (st\<lparr>document_classifications :=
                   document_classifications st @
                     [\<lparr>page_number = idx, classification = label, similarity = s\<rparr>]\<rparr>))"

text \<open>One iteration of the loop body, for the page \<open>page_emb\<close> at index \<open>idx\<close>.\<close>

definition classify_page ::
    "category list \<Rightarrow> real \<Rightarrow> nat \<Rightarrow> real list \<Rightarrow> loop_state \<Rightarrow> error + loop_state" where
  "classify_page classifications threshold idx page_emb st =
     (if page_emb = [] then
        append_classification idx ''Unclassified'' (st\<lparr>similarity_var := Some 0\<rparr>)
      else
        (case cosine_similarity page_emb (map cls_embedding classifications) of
           Inl e \<Rightarrow> Inl e
         | Inr similarities \<Rightarrow>
             (case argmax similarities of
                Inl e \<Rightarrow> Inl e
              | Inr best_match_idx \<Rightarrow>
                  (case getitem similarities best_match_idx of
                     Inl e \<Rightarrow> Inl e
                   | Inr best \<Rightarrow>
                       (case getitem classifications best_match_idx of
                          Inl e \<Rightarrow> Inl e
                        | Inr cls \<Rightarrow>
                            append_classification idx
                              (if threshold \<le> best then cls_classification cls
                               else ''Unclassified ('' @ cls_classification cls @ '')'')
                              (st\<lparr>best_similarity := Some best\<rparr>))))))"

text \<open>
  The \<^verbatim>\<open>for idx, page_emb in enumerate(page_embeddings)\<close> loop. An exception ends it and
  the cell; the value \<open>Inl e\<close> then stands for the aborted run, whatever records were
  appended before.
\<close>

fun classify_loop ::
    "category list \<Rightarrow> real \<Rightarrow> nat \<Rightarrow> real list list \<Rightarrow> loop_state \<Rightarrow> error + loop_state" where
  "classify_loop classifications threshold idx [] st = Inr st"
| "classify_loop classifications threshold idx (page_emb # rest) st =
     (case classify_page classifications threshold idx page_emb st of
        Inl e \<Rightarrow> Inl e
      | Inr st' \<Rightarrow> classify_loop classifications threshold (Suc idx) rest st')"

text \<open>The state in which a fresh run of the cell enters the loop.\<close>

definition initial_state :: loop_state where
  "initial_state =
     \<lparr>document_classifications = [], similarity_var = None, best_similarity = None\<rparr>"

definition classify_document ::
    "category list \<Rightarrow> real \<Rightarrow> real list list \<Rightarrow> error + Classification list" where
  "classify_document classifications threshold page_embeddings =
     (case classify_loop classifications threshold 0 page_embeddings initial_state of
        Inl e \<Rightarrow> Inl e
      | Inr st \<Rightarrow> Inr (document_classifications st))"

text \<open>The list of category similarities a non-empty page is compared with.\<close>

definition similarities_of :: "category list \<Rightarrow> real list \<Rightarrow> real list" where
  "similarities_of classifications page_emb =
     map (sim page_emb) (map cls_embedding classifications)"

text \<open>
  The precondition of the spec's data model: the category list is not empty and every
  category embedding has the length of the page embedding.
\<close>

definition same_dimension :: "category list \<Rightarrow> real list \<Rightarrow> bool" where
  "same_dimension classifications page_emb \<longleftrightarrow>
     classifications \<noteq> [] \<and>
     list_all (\<lambda>cls. length (cls_embedding cls) = length page_emb) classifications"

section \<open>The accuracy evaluator (cells 7 and 23)\<close>

text \<open>
  The records the evaluator compares are dictionaries from field names to values; an
  association list keeps the order of the fields, and \<open>map_of\<close> looks a field up.
\<close>

datatype field_value = IntValue int | StrValue string | NumValue real

type_synonym record_dict = "(string \<times> field_value) list"

record AccuracyReport =
  overall :: real

text \<open>What \<^verbatim>\<open>to_dict\<close> keeps of one \<open>Classification\<close>: its three fields.\<close>

definition to_dict :: "Classification \<Rightarrow> record_dict" where
  "to_dict c =
     [(''page_number'', IntValue (int (page_number c))),
      (''classification'', StrValue (classification c)),
      (''similarity'', NumValue (similarity c))]"

text \<open>
  Modelled from the spec: the class \<^verbatim>\<open>AccuracyEvaluator\<close> is imported from
  \<^verbatim>\<open>modules.accuracy_evaluator\<close>, which is not among the source files. The spec: the match
  keys identify which fields join an expected record to its actual record.
\<close>

definition joined :: "string list \<Rightarrow> record_dict \<Rightarrow> record_dict \<Rightarrow> bool" where
  "joined match_keys e a \<longleftrightarrow> list_all (\<lambda>k. map_of e k = map_of a k) match_keys"

text \<open>
  Modelled from the spec: the comparison of \<^verbatim>\<open>AccuracyEvaluator\<close>, whose module is not
  among the source files. The spec: compare all non-ignored fields for exact equality; the
  record is a match only if every compared field is equal.
\<close>

definition fields_agree :: "string list \<Rightarrow> record_dict \<Rightarrow> record_dict \<Rightarrow> bool" where
  "fields_agree ignore_keys e a \<longleftrightarrow>
     list_all (\<lambda>k. map_of e k = map_of a k)
       (filter (\<lambda>k. k \<notin> set ignore_keys) (map fst e @ map fst a))"

text \<open>
  Modelled from the spec: the per-record verdict of \<^verbatim>\<open>AccuracyEvaluator\<close>, whose module is
  not among the source files. The spec: for each expected record, find its joined actual
  record; if none is found, the expected record counts as a full mismatch, not a fatal
  error.
\<close>

definition record_matches ::
    "string list \<Rightarrow> string list \<Rightarrow> record_dict list \<Rightarrow> record_dict \<Rightarrow> bool" where
  "record_matches match_keys ignore_keys actual e =
     (case find (joined match_keys e) actual of
        None \<Rightarrow> False
      | Some a \<Rightarrow> fields_agree ignore_keys e a)"

text \<open>
  Modelled from the spec: the pass of \<^verbatim>\<open>AccuracyEvaluator.evaluate\<close> over the expected
  records, whose module is not among the source files; every expected record adds one to
  the count when it matches and nothing otherwise.
\<close>

fun count_matches ::
    "string list \<Rightarrow> string list \<Rightarrow> record_dict list \<Rightarrow> record_dict list \<Rightarrow> nat" where
  "count_matches match_keys ignore_keys actual [] = 0"
| "count_matches match_keys ignore_keys actual (e # rest) =
     (if record_matches match_keys ignore_keys actual e then 1 else 0) +
     count_matches match_keys ignore_keys actual rest"

text \<open>
  Modelled from the spec: \<^verbatim>\<open>AccuracyEvaluator.evaluate\<close>, whose module is not among the
  source files. The spec: overall accuracy = (count of matching records) / (count of
  expected records); for the empty expected set, which the spec leaves to the implementer,
  the model takes the spec's recommendation to fail with \<open>InvalidInput\<close>.
\<close>

definition evaluate ::
    "string list \<Rightarrow> string list \<Rightarrow> record_dict list \<Rightarrow> record_dict list \<Rightarrow>
     error + AccuracyReport" where
  "evaluate match_keys ignore_keys expected actual =
     (if expected = [] then Inl InvalidInput
      else Inr \<lparr>overall = real (count_matches match_keys ignore_keys actual expected) /
                          real (length expected)\<rparr>)"

text \<open>
  The evaluator of cell 7:
  \<^verbatim>\<open>AccuracyEvaluator(match_keys=["page_number"], ignore_keys=["page_number", "similarity"])\<close>.
\<close>

definition classification_evaluator ::
    "record_dict list \<Rightarrow> record_dict list \<Rightarrow> error + AccuracyReport" where
  "classification_evaluator =
     evaluate [''page_number''] [''page_number'', ''similarity'']"

section \<open>The categories of the spec's scenarios\<close>

text \<open>
  The spec's scenarios use the categories \<open>A\<close> with embedding \<open>[1, 0]\<close> and \<open>B\<close> with
  embedding \<open>[0, 1]\<close>; \<open>C\<close>, a category whose embedding points the same way as that of
  \<open>B\<close>, is added to exercise ties.
\<close>

definition scenario_A :: category where
  "scenario_A =
     \<lparr>cls_classification = ''A'', cls_description = [], cls_keywords = [],
      cls_embedding = [1, 0]\<rparr>"

definition scenario_B :: category where
  "scenario_B =
     \<lparr>cls_classification = ''B'', cls_description = [], cls_keywords = [],
      cls_embedding = [0, 1]\<rparr>"

definition scenario_C :: category where
  "scenario_C =
     \<lparr>cls_classification = ''C'', cls_description = [], cls_keywords = [],
      cls_embedding = [0, 2]\<rparr>"

section \<open>Facts about the first maximum\<close>

lemma getitem_in_range: "i < length xs \<Longrightarrow> getitem xs i = Inr (xs ! i)"
  by (simp add: getitem_def)

lemma is_best_match_iff:
  "is_best_match s k \<longleftrightarrow>
     k < length s \<and> (\<forall>j<length s. s ! j \<le> s ! k) \<and> (\<forall>j<k. s ! j < s ! k)"
  by (auto simp: is_best_match_def list_all_length)

lemma is_best_match_unique:
  assumes "is_best_match s k" and "is_best_match s k'"
  shows "k = k'"
proof (rule ccontr)
  assume ne: "k \<noteq> k'"
  from assms have b: "k < length s" "k' < length s"
    and le: "s ! k' \<le> s ! k" "s ! k \<le> s ! k'"
    by (simp_all add: is_best_match_iff)
  from ne consider "k < k'" | "k' < k" by linarith
  then show False
  proof cases
    case 1
    with assms(2) have "s ! k < s ! k'" by (simp add: is_best_match_iff)
    with le show False by simp
  next
    case 2
    with assms(1) have "s ! k' < s ! k" by (simp add: is_best_match_iff)
    with le show False by simp
  qed
qed

lemma is_best_match_snoc_keep:
  assumes "is_best_match pre b" and "x \<le> pre ! b"
  shows "is_best_match (pre @ [x]) b"
  using assms by (auto simp: is_best_match_iff nth_append less_Suc_eq)

lemma is_best_match_snoc_new:
  assumes "is_best_match pre b" and "pre ! b < x"
  shows "is_best_match (pre @ [x]) (length pre)"
  using assms by (fastforce simp: is_best_match_iff nth_append less_Suc_eq)

lemma argmax_from_best:
  "is_best_match pre b \<Longrightarrow> i = length pre \<Longrightarrow> v = pre ! b \<Longrightarrow>
   is_best_match (pre @ xs) (argmax_from xs i b v)"
proof (induction xs arbitrary: pre b i v)
  case Nil
  then show ?case by simp
next
  case (Cons x xs)
  show ?case
  proof (cases "v < x")
    case True
    with Cons.prems have new: "is_best_match (pre @ [x]) (length pre)"
      by (simp add: is_best_match_snoc_new)
    from Cons.prems have i: "i = length pre" by simp
    have "is_best_match ((pre @ [x]) @ xs) (argmax_from xs (Suc i) (length pre) x)"
      using Cons.IH [OF new, of "Suc i" x] i by simp
    with True i show ?thesis by simp
  next
    case False
    with Cons.prems have keep: "is_best_match (pre @ [x]) b"
      by (simp add: is_best_match_snoc_keep)
    from Cons.prems have "b < length pre" by (simp add: is_best_match_iff)
    then have "is_best_match ((pre @ [x]) @ xs) (argmax_from xs (Suc i) b v)"
      using Cons.IH [OF keep, of "Suc i" v] Cons.prems by (simp add: nth_append)
    with False show ?thesis by simp
  qed
qed

lemma argmax_best:
  "xs \<noteq> [] \<Longrightarrow> \<exists>k. argmax xs = Inr k \<and> is_best_match xs k"
proof (cases xs)
  case Nil
  assume "xs \<noteq> []"
  with Nil show ?thesis by simp
next
  case (Cons x rest)
  have "is_best_match [x] 0" by (simp add: is_best_match_def)
  then have "is_best_match ([x] @ rest) (argmax_from rest 1 0 x)"
    by (rule argmax_from_best) simp_all
  with Cons show ?thesis by (simp add: argmax_def)
qed

lemma is_best_match_Max:
  assumes "is_best_match s k"
  shows "s ! k = Max (set s)"
proof -
  from assms have k: "k < length s" and le: "\<forall>j<length s. s ! j \<le> s ! k"
    by (simp_all add: is_best_match_iff)
  have "Max (set s) = s ! k"
  proof (rule Max_eqI)
    show "finite (set s)" by simp
    show "s ! k \<in> set s" using k by simp
    fix y assume "y \<in> set s"
    then obtain j where "j < length s" "y = s ! j" by (auto simp: in_set_conv_nth)
    with le show "y \<le> s ! k" by simp
  qed
  then show ?thesis by simp
qed

section \<open>Facts about one iteration of the loop\<close>

lemma cosine_similarity_same_dimension:
  "page_emb \<noteq> [] \<Longrightarrow> same_dimension cs page_emb \<Longrightarrow>
   cosine_similarity page_emb (map cls_embedding cs) = Inr (similarities_of cs page_emb)"
  by (auto simp: cosine_similarity_def same_dimension_def similarities_of_def
      list_ex_iff list_all_iff)

lemma cosine_similarity_mismatch:
  "\<not> same_dimension cs page_emb \<Longrightarrow>
   cosine_similarity page_emb (map cls_embedding cs) = Inl ValueError"
  by (auto simp: cosine_similarity_def same_dimension_def list_ex_iff list_all_iff)

lemma length_similarities_of [simp]:
  "length (similarities_of cs page_emb) = length cs"
  by (simp add: similarities_of_def)

lemma classify_page_mismatch:
  "page_emb \<noteq> [] \<Longrightarrow> \<not> same_dimension cs page_emb \<Longrightarrow>
   classify_page cs thr idx page_emb st = Inl ValueError"
  by (simp add: classify_page_def cosine_similarity_mismatch)

lemma classify_page_compared:
  assumes "page_emb \<noteq> []" and "same_dimension cs page_emb"
  shows "\<exists>k. is_best_match (similarities_of cs page_emb) k \<and>
    classify_page cs thr idx page_emb st =
      Inr (st\<lparr>best_similarity := Some (similarities_of cs page_emb ! k),
               document_classifications := document_classifications st @
                 [\<lparr>page_number = idx,
                   classification =
                     (if thr \<le> similarities_of cs page_emb ! k
                      then cls_classification (cs ! k)
                      else ''Unclassified ('' @ cls_classification (cs ! k) @ '')''),
                   similarity = similarities_of cs page_emb ! k\<rparr>]\<rparr>)"
proof -
  let ?sims = "similarities_of cs page_emb"
  from assms(2) have "?sims \<noteq> []"
    by (simp add: same_dimension_def similarities_of_def)
  then obtain k where k: "argmax ?sims = Inr k" and best: "is_best_match ?sims k"
    using argmax_best by blast
  from best have len: "k < length cs" by (simp add: is_best_match_iff)
  have "classify_page cs thr idx page_emb st =
      append_classification idx
        (if thr \<le> ?sims ! k then cls_classification (cs ! k)
         else ''Unclassified ('' @ cls_classification (cs ! k) @ '')'')
        (st\<lparr>best_similarity := Some (?sims ! k)\<rparr>)"
    using assms len
    by (simp add: classify_page_def cosine_similarity_same_dimension k getitem_in_range)
  then show ?thesis using best
    by (intro exI [of _ k]) (simp add: append_classification_def)
qed

lemma classify_page_empty:
  "classify_page cs thr idx [] st =
     (case best_similarity st of
        None \<Rightarrow> Inl NameError
      | Some s \<Rightarrow>
          Inr (st\<lparr>similarity_var := Some 0,
                   document_classifications := document_classifications st @
                     [\<lparr>page_number = idx, classification = ''Unclassified'',
                       similarity = s\<rparr>]\<rparr>))"
  by (simp add: classify_page_def append_classification_def split: option.splits)

section \<open>Facts about the whole loop\<close>

lemma classify_page_appends:
  assumes "classify_page cs thr idx p st = Inr st'"
  shows "\<exists>r. document_classifications st' = document_classifications st @ [r] \<and>
    page_number r = idx \<and> best_similarity st' = Some (similarity r)"
proof (cases "p = []")
  case True
  with assms show ?thesis
    by (auto simp: classify_page_empty split: option.splits)
next
  case False
  with assms have "same_dimension cs p"
    using classify_page_mismatch [of p cs thr idx st] by auto
  from classify_page_compared [OF False this, of thr idx st] assms
  show ?thesis by auto
qed

lemma classify_loop_steps:
  assumes "classify_loop cs thr idx pages st = Inr st'"
  shows "\<exists>rs. document_classifications st' = document_classifications st @ rs \<and>
    length rs = length pages \<and>
    (\<forall>i<length pages. \<exists>s s'.
       classify_page cs thr (idx + i) (pages ! i) s = Inr s' \<and>
       document_classifications s' = document_classifications s @ [rs ! i] \<and>
       best_similarity s =
         (if i = 0 then best_similarity st else Some (similarity (rs ! (i - 1)))))"
  using assms
proof (induction pages arbitrary: idx st)
  case Nil
  then show ?case by simp
next
  case (Cons p ps)
  from Cons.prems obtain st1 where
    step: "classify_page cs thr idx p st = Inr st1" and
    rest: "classify_loop cs thr (Suc idx) ps st1 = Inr st'"
    by (auto split: sum.splits)
  from classify_page_appends [OF step] obtain r where
    r: "document_classifications st1 = document_classifications st @ [r]"
      "best_similarity st1 = Some (similarity r)"
    by blast
  from Cons.IH [OF rest] obtain rs where
    rs: "document_classifications st' = document_classifications st1 @ rs"
      "length rs = length ps" and
    each: "\<forall>i<length ps. \<exists>s s'.
       classify_page cs thr (Suc idx + i) (ps ! i) s = Inr s' \<and>
       document_classifications s' = document_classifications s @ [rs ! i] \<and>
       best_similarity s =
         (if i = 0 then best_similarity st1 else Some (similarity (rs ! (i - 1))))"
    by blast
  have "\<exists>s s'.
       classify_page cs thr (idx + i) ((p # ps) ! i) s = Inr s' \<and>
       document_classifications s' = document_classifications s @ [(r # rs) ! i] \<and>
       best_similarity s =
         (if i = 0 then best_similarity st else Some (similarity ((r # rs) ! (i - 1))))"
    if "i < length (p # ps)" for i
  proof (cases i)
    case 0
    with step r show ?thesis by auto
  next
    case (Suc n)
    with that have "n < length ps" by simp
    with each obtain s s' where
      "classify_page cs thr (Suc idx + n) (ps ! n) s = Inr s'"
      "document_classifications s' = document_classifications s @ [rs ! n]"
      "best_similarity s =
         (if n = 0 then best_similarity st1 else Some (similarity (rs ! (n - 1))))"
      by blast
    with Suc r show ?thesis
      by (cases n) auto
  qed
  with r rs show ?case
    by (intro exI [of _ "r # rs"]) simp
qed

lemma classify_document_steps:
  assumes "classify_document cs thr pages = Inr rs"
  shows "length rs = length pages \<and>
    (\<forall>i<length pages. \<exists>s s'.
       classify_page cs thr i (pages ! i) s = Inr s' \<and>
       document_classifications s' = document_classifications s @ [rs ! i] \<and>
       best_similarity s = (if i = 0 then None else Some (similarity (rs ! (i - 1)))))"
proof -
  from assms obtain st' where
    run: "classify_loop cs thr 0 pages initial_state = Inr st'" and
    out: "rs = document_classifications st'"
    by (auto simp: classify_document_def split: sum.splits)
  have init: "document_classifications initial_state = []"
    "best_similarity initial_state = None"
    by (simp_all add: initial_state_def)
  from classify_loop_steps [OF run, unfolded init] obtain rs' where
    a: "document_classifications st' = [] @ rs'" and
    b: "length rs' = length pages" and
    c: "\<forall>i<length pages. \<exists>s s'.
       classify_page cs thr (0 + i) (pages ! i) s = Inr s' \<and>
       document_classifications s' = document_classifications s @ [rs' ! i] \<and>
       best_similarity s = (if i = 0 then None else Some (similarity (rs' ! (i - 1))))"
    by blast
  from a out have eq: "rs' = rs" by simp
  from b c show ?thesis unfolding eq add_0 by blast
qed

lemma classify_document_page_number:
  assumes "classify_document cs thr pages = Inr rs" and "i < length pages"
  shows "page_number (rs ! i) = i"
proof -
  from classify_document_steps [OF assms(1)] assms(2) obtain s s' where
    step: "classify_page cs thr i (pages ! i) s = Inr s'" and
    app: "document_classifications s' = document_classifications s @ [rs ! i]"
    by blast
  from classify_page_appends [OF step] app show ?thesis by auto
qed

lemma classify_document_empty_page:
  assumes "classify_document cs thr pages = Inr rs" and "Suc i < length pages"
    and "pages ! Suc i = []"
  shows "similarity (rs ! Suc i) = similarity (rs ! i) \<and>
    classification (rs ! Suc i) = ''Unclassified''"
proof -
  from classify_document_steps [OF assms(1)] assms(2) obtain s s' where
    step: "classify_page cs thr (Suc i) (pages ! Suc i) s = Inr s'" and
    app: "document_classifications s' = document_classifications s @ [rs ! Suc i]" and
    best: "best_similarity s = Some (similarity (rs ! i))"
    by fastforce
  let ?r = "\<lparr>page_number = Suc i, classification = ''Unclassified'',
    similarity = similarity (rs ! i)\<rparr>"
  from step assms(3) best
  have "document_classifications s' = document_classifications s @ [?r]"
    by (auto simp: classify_page_empty)
  with app have "rs ! Suc i = ?r" by simp
  then show ?thesis by simp
qed

lemma classify_document_compared_page:
  assumes "classify_document cs thr pages = Inr rs" and "i < length pages"
    and "pages ! i \<noteq> []"
  shows "same_dimension cs (pages ! i) \<and>
    similarity (rs ! i) = Max (set (similarities_of cs (pages ! i)))"
proof -
  from classify_document_steps [OF assms(1)] assms(2) obtain s s' where
    step: "classify_page cs thr i (pages ! i) s = Inr s'" and
    app: "document_classifications s' = document_classifications s @ [rs ! i]"
    by blast
  from step assms(3) have dim: "same_dimension cs (pages ! i)"
    using classify_page_mismatch [of "pages ! i" cs thr i s] by auto
  let ?sims = "similarities_of cs (pages ! i)"
  from classify_page_compared [OF assms(3) dim, of thr i s] step obtain k label where
    best: "is_best_match ?sims k" and
    "document_classifications s' = document_classifications s @
       [\<lparr>page_number = i, classification = label, similarity = ?sims ! k\<rparr>]"
    by auto
  with app have "rs ! i = \<lparr>page_number = i, classification = label, similarity = ?sims ! k\<rparr>"
    by simp
  then have "similarity (rs ! i) = ?sims ! k" by simp
  with best dim show ?thesis by (simp add: is_best_match_Max)
qed

lemma classify_document_first_page_empty:
  "classify_document cs thr ([] # rest) = Inl NameError"
  by (simp add: classify_document_def classify_page_empty initial_state_def)

lemma classify_loop_total:
  assumes "list_all (\<lambda>p. p \<noteq> [] \<and> same_dimension cs p) pages"
  shows "\<exists>st'. classify_loop cs thr idx pages st = Inr st'"
  using assms
proof (induction pages arbitrary: idx st)
  case Nil
  then show ?case by simp
next
  case (Cons p ps)
  then have "p \<noteq> []" "same_dimension cs p" by simp_all
  from classify_page_compared [OF this, of thr idx st] obtain st1 where
    "classify_page cs thr idx p st = Inr st1" by blast
  moreover from Cons obtain st' where
    "classify_loop cs thr (Suc idx) ps st1 = Inr st'" by fastforce
  ultimately show ?case by simp
qed

lemma classify_loop_fails:
  assumes "p \<in> set pages" and "p \<noteq> []" and "\<not> same_dimension cs p"
  shows "\<exists>e. classify_loop cs thr idx pages st = Inl e"
  using assms(1)
proof (induction pages arbitrary: idx st)
  case Nil
  then show ?case by simp
next
  case (Cons q qs)
  show ?case
  proof (cases "classify_page cs thr idx q st")
    case (Inl e)
    then show ?thesis by simp
  next
    case (Inr st1)
    with assms(2,3) have "q \<noteq> p"
      using classify_page_mismatch [of p cs thr idx st] by auto
    with Cons.prems have "p \<in> set qs" by simp
    from Cons.IH [OF this] Inr show ?thesis by simp
  qed
qed

section \<open>The claims about one page\<close>

lemmas scenario_defs = scenario_A_def scenario_B_def scenario_C_def

lemmas cell_21_defs = classify_document_def initial_state_def classify_page_def
  cosine_similarity_def sim_def magnitude_def dot_def argmax_def getitem_def
  append_classification_def similarity_threshold_def similarities_of_def
  same_dimension_def is_best_match_def

lemma similarities_of_nonempty:
  "classifications \<noteq> [] \<Longrightarrow> similarities_of classifications page_emb \<noteq> []"
  by (simp add: similarities_of_def)

lemma classify_page_best_match:
  assumes "page_emb \<noteq> []"
    and "is_best_match (similarities_of classifications page_emb) k"
  shows "classify_page classifications threshold idx page_emb st =
    (if same_dimension classifications page_emb then
       Inr (st\<lparr>best_similarity := Some (similarities_of classifications page_emb ! k),
                document_classifications := document_classifications st @
                  [\<lparr>page_number = idx,
                    classification =
                      (if threshold \<le> similarities_of classifications page_emb ! k
                       then cls_classification (classifications ! k)
                       else ''Unclassified ('' @ cls_classification (classifications ! k) @ '')''),
                    similarity = similarities_of classifications page_emb ! k\<rparr>]\<rparr>)
     else Inl ValueError)"
proof (cases "same_dimension classifications page_emb")
  case True
  from classify_page_compared [OF assms(1) True, of threshold idx st] obtain k' where
    k': "is_best_match (similarities_of classifications page_emb) k'" and
    eq: "classify_page classifications threshold idx page_emb st =
      Inr (st\<lparr>best_similarity := Some (similarities_of classifications page_emb ! k'),
               document_classifications := document_classifications st @
                 [\<lparr>page_number = idx,
                   classification =
                     (if threshold \<le> similarities_of classifications page_emb ! k'
                      then cls_classification (classifications ! k')
                      else ''Unclassified ('' @ cls_classification (classifications ! k') @ '')''),
                   similarity = similarities_of classifications page_emb ! k'\<rparr>]\<rparr>)"
    by blast
  from is_best_match_unique [OF assms(2) k'] have "k' = k" by simp
  with eq True show ?thesis by simp
next
  case False
  with assms(1) show ?thesis by (simp add: classify_page_mismatch)
qed

text \<open>
  C2: for every non-empty page embedding and non-empty category list, the category whose
  similarity the loop body reports is a best match: its similarity is a maximum among the
  similarities of all categories, and every category before it in the list has a strictly
  smaller similarity, so that among equal maxima the earliest index is chosen. (When the
  dimensions differ, nothing is reported: the comparison raises.)
\<close>

theorem classify_page_reports_first_maximum:
  assumes "page_emb \<noteq> []" and "classifications \<noteq> []"
  shows "\<exists>k. is_best_match (similarities_of classifications page_emb) k \<and>
    classify_page classifications threshold idx page_emb st =
      (if same_dimension classifications page_emb then
         Inr (st\<lparr>best_similarity := Some (similarities_of classifications page_emb ! k),
                  document_classifications := document_classifications st @
                    [\<lparr>page_number = idx,
                      classification =
                        (if threshold \<le> similarities_of classifications page_emb ! k
                         then cls_classification (classifications ! k)
                         else ''Unclassified ('' @
                              cls_classification (classifications ! k) @ '')''),
                      similarity = similarities_of classifications page_emb ! k\<rparr>]\<rparr>)
       else Inl ValueError)"
proof -
  from assms(2) obtain k where
    "is_best_match (similarities_of classifications page_emb) k"
    using argmax_best [OF similarities_of_nonempty] by blast
  with classify_page_best_match [OF assms(1) this] show ?thesis by blast
qed

theorem classify_page_reports_first_maximum_witness:
  "[3, 4] \<noteq> ([] :: real list) \<and> [scenario_A, scenario_B, scenario_C] \<noteq> [] \<and>
   is_best_match (similarities_of [scenario_A, scenario_B, scenario_C] [3, 4]) 1 \<and>
   similarities_of [scenario_A, scenario_B, scenario_C] [3, 4] = [3 / 5, 4 / 5, 4 / 5] \<and>
   classify_page [scenario_A, scenario_B, scenario_C] similarity_threshold 0 [3, 4]
       initial_state =
     Inr \<lparr>document_classifications =
            [\<lparr>page_number = 0, classification = ''B'', similarity = 4 / 5\<rparr>],
          similarity_var = None, best_similarity = Some (4 / 5)\<rparr>"
  using classify_page_reports_first_maximum
    [of "[3, 4]" "[scenario_A, scenario_B, scenario_C]" similarity_threshold 0 initial_state]
  by (simp add: cell_21_defs scenario_defs)

text \<open>
  C3: for every non-empty page embedding, if the similarity of the best match is greater
  than or equal to the threshold, the label of the appended record is exactly the name of
  the best category.
\<close>

theorem label_is_category_name_at_threshold:
  assumes "page_emb \<noteq> []"
    and "is_best_match (similarities_of classifications page_emb) k"
    and "threshold \<le> similarities_of classifications page_emb ! k"
  shows "classify_page classifications threshold idx page_emb st =
    (if same_dimension classifications page_emb then
       Inr (st\<lparr>best_similarity := Some (similarities_of classifications page_emb ! k),
                document_classifications := document_classifications st @
                  [\<lparr>page_number = idx,
                    classification = cls_classification (classifications ! k),
                    similarity = similarities_of classifications page_emb ! k\<rparr>]\<rparr>)
     else Inl ValueError)"
  using classify_page_best_match [OF assms(1,2), of threshold idx st] assms(3) by simp

theorem label_is_category_name_at_threshold_witness:
  "[3, 4] \<noteq> ([] :: real list) \<and>
   is_best_match (similarities_of [scenario_A] [3, 4]) 0 \<and>
   similarity_threshold \<le> similarities_of [scenario_A] [3, 4] ! 0 \<and>
   similarities_of [scenario_A] [3, 4] ! 0 = 6 / 10 \<and>
   classify_page [scenario_A] similarity_threshold 7 [3, 4] initial_state =
     Inr \<lparr>document_classifications =
            [\<lparr>page_number = 7, classification = ''A'', similarity = 6 / 10\<rparr>],
          similarity_var = None, best_similarity = Some (6 / 10)\<rparr>"
  using label_is_category_name_at_threshold
    [of "[3, 4]" "[scenario_A]" 0 similarity_threshold 7 initial_state]
  by (simp add: cell_21_defs scenario_defs)

text \<open>
  C4: for every non-empty page embedding, if the similarity of the best match is strictly
  below the threshold, the label of the appended record is the string
  \<open>Unclassified (\<close> followed by the name of the best category followed by \<open>)\<close>.
\<close>

theorem label_is_unclassified_name_below_threshold:
  assumes "page_emb \<noteq> []"
    and "is_best_match (similarities_of classifications page_emb) k"
    and "similarities_of classifications page_emb ! k < threshold"
  shows "classify_page classifications threshold idx page_emb st =
    (if same_dimension classifications page_emb then
       Inr (st\<lparr>best_similarity := Some (similarities_of classifications page_emb ! k),
                document_classifications := document_classifications st @
                  [\<lparr>page_number = idx,
                    classification =
                      ''Unclassified ('' @ cls_classification (classifications ! k) @ '')'',
                    similarity = similarities_of classifications page_emb ! k\<rparr>]\<rparr>)
     else Inl ValueError)"
  using classify_page_best_match [OF assms(1,2), of threshold idx st] assms(3) by simp

theorem label_is_unclassified_name_below_threshold_witness:
  "[4, 3] \<noteq> ([] :: real list) \<and>
   is_best_match (similarities_of [scenario_A, scenario_B] [4, 3]) 0 \<and>
   similarities_of [scenario_A, scenario_B] [4, 3] ! 0 < 9 / 10 \<and>
   classify_page [scenario_A, scenario_B] (9 / 10) 2 [4, 3] initial_state =
     Inr \<lparr>document_classifications =
            [\<lparr>page_number = 2, classification = ''Unclassified (A)'',
              similarity = 4 / 5\<rparr>],
          similarity_var = None, best_similarity = Some (4 / 5)\<rparr>"
  using label_is_unclassified_name_below_threshold
    [of "[4, 3]" "[scenario_A, scenario_B]" 0 "9 / 10" 2 initial_state]
  by (simp add: cell_21_defs scenario_defs)




section \<open>The claims about the whole document\<close>

lemma classify_document_total:
  assumes "list_all (\<lambda>p. p \<noteq> [] \<and> same_dimension cs p) pages"
  shows "\<exists>rs. classify_document cs thr pages = Inr rs"
proof -
  from classify_loop_total [OF assms, of thr 0 initial_state] obtain st' where
    "classify_loop cs thr 0 pages initial_state = Inr st'" by blast
  then show ?thesis by (simp add: classify_document_def)
qed

lemma classify_document_fails:
  assumes "p \<in> set pages" and "p \<noteq> []" and "\<not> same_dimension cs p"
  shows "\<exists>e. classify_document cs thr pages = Inl e"
proof -
  from classify_loop_fails [OF assms, of thr 0 initial_state] obtain e where
    "classify_loop cs thr 0 pages initial_state = Inl e" by blast
  then show ?thesis by (simp add: classify_document_def)
qed

lemma classify_document_page_numbers:
  assumes "classify_document cs thr pages = Inr rs"
  shows "map page_number rs = [0..<length pages]"
proof (rule nth_equalityI)
  from classify_document_steps [OF assms] have len: "length rs = length pages" by simp
  then show "length (map page_number rs) = length [0..<length pages]" by simp
  fix i assume "i < length (map page_number rs)"
  with len have i: "i < length pages" by simp
  from classify_document_page_number [OF assms i] i len
  show "map page_number rs ! i = [0..<length pages] ! i" by simp
qed

lemma classify_document_empty_run:
  assumes "classify_document cs thr pages = Inr rs"
  shows "j + n < length pages \<Longrightarrow>
    list_all (\<lambda>p. p = []) (take n (drop (Suc j) pages)) \<Longrightarrow>
    similarity (rs ! (j + n)) = similarity (rs ! j)"
proof (induction n)
  case 0
  then show ?case by simp
next
  case (Suc n)
  from Suc.prems(1) have n: "n < length (drop (Suc j) pages)" by simp
  from Suc.prems(2) have
    before: "list_all (\<lambda>p. p = []) (take n (drop (Suc j) pages))" and
    this_one: "drop (Suc j) pages ! n = []"
    by (simp_all add: take_Suc_conv_app_nth [OF n])
  from this_one Suc.prems(1) have empty: "pages ! Suc (j + n) = []" by simp
  from Suc.prems(1) have "Suc (j + n) < length pages" by simp
  from classify_document_empty_page [OF assms this empty]
  have "similarity (rs ! Suc (j + n)) = similarity (rs ! (j + n))" by simp
  also from Suc.IH before Suc.prems(1) have "\<dots> = similarity (rs ! j)" by simp
  finally show ?case by simp
qed

text \<open>
  C1: the spec has the classifier return the label \<open>Unclassified\<close> with similarity \<open>0.0\<close>
  for every empty page embedding. The label is right and no comparison is made, but the
  record the loop appends takes its similarity from \<open>best_similarity\<close>: after the page
  \<open>[3, 4]\<close> the empty page is recorded with similarity \<open>4/5\<close>, not \<open>0\<close>, and a document
  whose first page is empty ends in \<open>NameError\<close>.
\<close>

theorem empty_page_similarity_is_not_zero:
  "classify_document [scenario_A, scenario_B] similarity_threshold [[3, 4], []] =
     Inr [\<lparr>page_number = 0, classification = ''B'', similarity = 4 / 5\<rparr>,
          \<lparr>page_number = 1, classification = ''Unclassified'', similarity = 4 / 5\<rparr>] \<and>
   classify_document [scenario_A, scenario_B] similarity_threshold [[]] = Inl NameError"
  by (simp add: cell_21_defs scenario_defs)

text \<open>
  C8, as stated: every page embedding whose length differs from the common length of the
  category embeddings makes classification fail. The empty page embedding has length \<open>0\<close>,
  which differs from the length \<open>2\<close> of the scenario's categories, and the loop completes.
\<close>

theorem empty_page_is_no_dimension_error:
  "length ([] :: real list) \<noteq> length (cls_embedding scenario_A) \<and>
   length ([] :: real list) \<noteq> length (cls_embedding scenario_B) \<and>
   classify_document [scenario_A, scenario_B] similarity_threshold [[4, 3], []] =
     Inr [\<lparr>page_number = 0, classification = ''A'', similarity = 4 / 5\<rparr>,
          \<lparr>page_number = 1, classification = ''Unclassified'', similarity = 4 / 5\<rparr>]"
  by (simp add: cell_21_defs scenario_defs)

text \<open>
  C8, amended: for every non-empty page embedding whose length differs from the common
  length \<open>d\<close> of the category embeddings, the comparison raises \<open>ValueError\<close> before any
  similarity is computed, the loop body raises it without appending a record, and a
  document that contains such a page ends in an error instead of a result list.
\<close>

theorem dimension_mismatch_fails_fast:
  assumes "page_emb \<noteq> []" and "classifications \<noteq> []"
    and "list_all (\<lambda>cls. length (cls_embedding cls) = d) classifications"
    and "length page_emb \<noteq> d"
  shows "cosine_similarity page_emb (map cls_embedding classifications) = Inl ValueError \<and>
    classify_page classifications threshold idx page_emb st = Inl ValueError \<and>
    (page_emb \<in> set page_embeddings \<longrightarrow>
       (\<exists>e. classify_document classifications threshold page_embeddings = Inl e))"
proof -
  from assms(2-4) have ne: "\<not> same_dimension classifications page_emb"
    by (cases classifications) (auto simp: same_dimension_def)
  from ne have "cosine_similarity page_emb (map cls_embedding classifications) = Inl ValueError"
    by (rule cosine_similarity_mismatch)
  moreover from assms(1) ne
  have "classify_page classifications threshold idx page_emb st = Inl ValueError"
    by (rule classify_page_mismatch)
  moreover have "\<exists>e. classify_document classifications threshold page_embeddings = Inl e"
    if "page_emb \<in> set page_embeddings"
    using classify_document_fails [OF that assms(1) ne] .
  ultimately show ?thesis by blast
qed

theorem dimension_mismatch_fails_fast_witness:
  "[1] \<noteq> ([] :: real list) \<and> [scenario_A, scenario_B] \<noteq> [] \<and>
   list_all (\<lambda>cls. length (cls_embedding cls) = 2) [scenario_A, scenario_B] \<and>
   length [1 :: real] \<noteq> 2 \<and> [1] \<in> set [[3, 4], [1 :: real]] \<and>
   cosine_similarity [1] (map cls_embedding [scenario_A, scenario_B]) = Inl ValueError \<and>
   classify_page [scenario_A, scenario_B] similarity_threshold 1 [1] initial_state =
     Inl ValueError \<and>
   classify_document [scenario_A, scenario_B] similarity_threshold [[3, 4], [1]] =
     Inl ValueError"
  using dimension_mismatch_fails_fast
    [of "[1]" "[scenario_A, scenario_B]" 2 similarity_threshold 1 initial_state
        "[[3, 4], [1]]"]
  by (simp add: cell_21_defs scenario_defs)

text \<open>
  C9, as stated: every sequence of page embeddings yields one record per page. A second
  page of length \<open>1\<close> among categories of length \<open>2\<close> aborts the loop with
  \<open>ValueError\<close>: the run does not end with one record for each of the two pages.
\<close>

theorem mismatched_page_yields_no_results:
  "classify_document [scenario_A, scenario_B] similarity_threshold [[4, 3], [5]] =
     Inl ValueError"
  by (simp add: cell_21_defs scenario_defs)

text \<open>
  C9, amended: whenever the loop runs to completion it has produced exactly one record per
  page, in page order: the record at position \<open>i\<close> carries the page number \<open>i\<close> and, for
  a non-empty page, the maximum similarity of page \<open>i\<close>. The loop runs to completion
  whenever every page embedding is non-empty and has the dimension of the categories, and
  it ends in an error, without a result list, when some non-empty page has not.
\<close>

theorem one_record_per_page_in_order:
  "(\<forall>rs. classify_document classifications threshold page_embeddings = Inr rs \<longrightarrow>
      length rs = length page_embeddings \<and>
      map page_number rs = [0..<length page_embeddings] \<and>
      (\<forall>i<length page_embeddings. page_embeddings ! i \<noteq> [] \<longrightarrow>
         similarity (rs ! i) =
           Max (set (similarities_of classifications (page_embeddings ! i))))) \<and>
   (list_all (\<lambda>p. p \<noteq> [] \<and> same_dimension classifications p) page_embeddings \<longrightarrow>
      (\<exists>rs. classify_document classifications threshold page_embeddings = Inr rs)) \<and>
   (list_ex (\<lambda>p. p \<noteq> [] \<and> \<not> same_dimension classifications p) page_embeddings \<longrightarrow>
      (\<exists>e. classify_document classifications threshold page_embeddings = Inl e))"
proof (intro conjI allI impI)
  fix rs assume run: "classify_document classifications threshold page_embeddings = Inr rs"
  from classify_document_steps [OF run] show "length rs = length page_embeddings" by simp
  from run show "map page_number rs = [0..<length page_embeddings]"
    by (rule classify_document_page_numbers)
  fix i assume "i < length page_embeddings" and "page_embeddings ! i \<noteq> []"
  with run show "similarity (rs ! i) =
      Max (set (similarities_of classifications (page_embeddings ! i)))"
    by (simp add: classify_document_compared_page)
next
  assume "list_all (\<lambda>p. p \<noteq> [] \<and> same_dimension classifications p) page_embeddings"
  then show "\<exists>rs. classify_document classifications threshold page_embeddings = Inr rs"
    by (rule classify_document_total)
next
  assume "list_ex (\<lambda>p. p \<noteq> [] \<and> \<not> same_dimension classifications p) page_embeddings"
  then obtain p where "p \<in> set page_embeddings" "p \<noteq> []"
    "\<not> same_dimension classifications p"
    by (auto simp: list_ex_iff)
  then show "\<exists>e. classify_document classifications threshold page_embeddings = Inl e"
    by (rule classify_document_fails)
qed

theorem one_record_per_page_in_order_witness:
  "list_all (\<lambda>p. p \<noteq> [] \<and> same_dimension [scenario_A, scenario_B] p) [[3, 4], [4, 3]] \<and>
   classify_document [scenario_A, scenario_B] similarity_threshold [[3, 4], [4, 3]] =
     Inr [\<lparr>page_number = 0, classification = ''B'', similarity = 4 / 5\<rparr>,
          \<lparr>page_number = 1, classification = ''A'', similarity = 4 / 5\<rparr>] \<and>
   map page_number
     [\<lparr>page_number = 0, classification = ''B'', similarity = 4 / 5\<rparr>,
      \<lparr>page_number = 1, classification = ''A'', similarity = 4 / 5\<rparr>] = [0..<2] \<and>
   list_ex (\<lambda>p. p \<noteq> [] \<and> \<not> same_dimension [scenario_A, scenario_B] p) [[3, 4], [1]] \<and>
   classify_document [scenario_A, scenario_B] similarity_threshold [[3, 4], [1]] =
     Inl ValueError"
  using one_record_per_page_in_order
    [of "[scenario_A, scenario_B]" similarity_threshold "[[3, 4], [4, 3]]"]
  by (simp add: cell_21_defs scenario_defs upt_rec)

text \<open>
  C10: on an empty page embedding the loop body assigns \<open>0\<close> to \<open>similarity\<close> but appends
  the value that \<open>best_similarity\<close> holds; that value is the one left by the most recent
  page with a non-empty embedding (the maximum similarity of that page), and when
  \<open>best_similarity\<close> is still unbound, as it is when the very first page is empty, the
  loop ends in \<open>NameError\<close>.
\<close>

theorem empty_page_appends_left_over_best_similarity:
  "(best_similarity st = Some s \<longrightarrow>
      classify_page classifications threshold idx [] st =
        Inr (st\<lparr>similarity_var := Some 0,
                 document_classifications := document_classifications st @
                   [\<lparr>page_number = idx, classification = ''Unclassified'',
                     similarity = s\<rparr>]\<rparr>)) \<and>
   (best_similarity st = None \<longrightarrow>
      classify_page classifications threshold idx [] st = Inl NameError) \<and>
   (classify_document classifications threshold page_embeddings = Inr rs \<and>
    j + n < length page_embeddings \<and> page_embeddings ! j \<noteq> [] \<and>
    list_all (\<lambda>p. p = []) (take n (drop (Suc j) page_embeddings)) \<longrightarrow>
      similarity (rs ! (j + n)) =
        Max (set (similarities_of classifications (page_embeddings ! j)))) \<and>
   classify_document classifications threshold ([] # rest) = Inl NameError"
proof (intro conjI impI)
  assume "best_similarity st = Some s"
  then show "classify_page classifications threshold idx [] st =
        Inr (st\<lparr>similarity_var := Some 0,
                 document_classifications := document_classifications st @
                   [\<lparr>page_number = idx, classification = ''Unclassified'',
                     similarity = s\<rparr>]\<rparr>)"
    by (simp add: classify_page_empty)
next
  assume "best_similarity st = None"
  then show "classify_page classifications threshold idx [] st = Inl NameError"
    by (simp add: classify_page_empty)
next
  assume a: "classify_document classifications threshold page_embeddings = Inr rs \<and>
    j + n < length page_embeddings \<and> page_embeddings ! j \<noteq> [] \<and>
    list_all (\<lambda>p. p = []) (take n (drop (Suc j) page_embeddings))"
  then have run: "classify_document classifications threshold page_embeddings = Inr rs"
    and i: "j + n < length page_embeddings"
    and page: "page_embeddings ! j \<noteq> []"
    and empties: "list_all (\<lambda>p. p = []) (take n (drop (Suc j) page_embeddings))"
    by simp_all
  from i have j: "j < length page_embeddings" by simp
  from classify_document_empty_run [OF run i empties]
  have "similarity (rs ! (j + n)) = similarity (rs ! j)" .
  also from classify_document_compared_page [OF run j page]
  have "\<dots> = Max (set (similarities_of classifications (page_embeddings ! j)))" by simp
  finally show "similarity (rs ! (j + n)) =
      Max (set (similarities_of classifications (page_embeddings ! j)))" .
next
  show "classify_document classifications threshold ([] # rest) = Inl NameError"
    by (rule classify_document_first_page_empty)
qed

theorem empty_page_appends_left_over_best_similarity_witness:
  "classify_document [scenario_A, scenario_B] similarity_threshold [[3, 4], [], []] =
     Inr [\<lparr>page_number = 0, classification = ''B'', similarity = 4 / 5\<rparr>,
          \<lparr>page_number = 1, classification = ''Unclassified'', similarity = 4 / 5\<rparr>,
          \<lparr>page_number = 2, classification = ''Unclassified'', similarity = 4 / 5\<rparr>] \<and>
   0 + 2 < length [[3, 4], [], [] :: real list] \<and>
   [[3, 4], [], []] ! 0 \<noteq> ([] :: real list) \<and>
   list_all (\<lambda>p. p = []) (take 2 (drop (Suc 0) [[3, 4], [], [] :: real list])) \<and>
   Max (set (similarities_of [scenario_A, scenario_B] [3, 4])) = 4 / 5 \<and>
   classify_page [scenario_A, scenario_B] similarity_threshold 1 []
       \<lparr>document_classifications = [], similarity_var = None,
        best_similarity = Some (4 / 5)\<rparr> =
     Inr \<lparr>document_classifications =
            [\<lparr>page_number = 1, classification = ''Unclassified'', similarity = 4 / 5\<rparr>],
          similarity_var = Some 0, best_similarity = Some (4 / 5)\<rparr> \<and>
   classify_document [scenario_A, scenario_B] similarity_threshold [[], [3, 4]] =
     Inl NameError"
  using empty_page_appends_left_over_best_similarity
    [of "\<lparr>document_classifications = [], similarity_var = None,
          best_similarity = Some (4 / 5)\<rparr>" "4 / 5"
        "[scenario_A, scenario_B]" similarity_threshold 1
        "[[3, 4], [], []]"
        "[\<lparr>page_number = 0, classification = ''B'', similarity = 4 / 5\<rparr>,
          \<lparr>page_number = 1, classification = ''Unclassified'', similarity = 4 / 5\<rparr>,
          \<lparr>page_number = 2, classification = ''Unclassified'', similarity = 4 / 5\<rparr>]"
        0 2 "[[3, 4]]"]
  by (simp add: cell_21_defs scenario_defs)

section \<open>The claims about the similarity function and the evaluator\<close>

lemma dot_Cons: "dot (x # xs) (y # ys) = x * y + dot xs ys"
  by (simp add: dot_def)

lemma dot_self_nonneg: "0 \<le> dot a a"
  by (induction a) (simp_all add: dot_def)

lemma dot_self_zero_iff: "dot a a = 0 \<longleftrightarrow> list_all (\<lambda>x. x = 0) a"
proof (induction a)
  case Nil
  show ?case by (simp add: dot_def)
next
  case (Cons x xs)
  have "x * x + dot xs xs = 0 \<longleftrightarrow> x * x = 0 \<and> dot xs xs = 0"
    using dot_self_nonneg [of xs] by (intro add_nonneg_eq_0_iff) simp_all
  with Cons show ?case by (simp add: dot_Cons)
qed

lemma magnitude_zero_iff: "magnitude a = 0 \<longleftrightarrow> list_all (\<lambda>x. x = 0) a"
  by (simp add: magnitude_def dot_self_zero_iff)

text \<open>
  C6: for vectors \<open>a\<close> and \<open>b\<close> of equal length, the similarity is
  \<open>dot a b / (magnitude a * magnitude b)\<close> when both magnitudes are non-zero, and then the
  divisor is non-zero; it is \<open>0\<close> when either magnitude is zero, which is the case exactly
  for a vector of zeros. No division by zero is ever evaluated.
\<close>

theorem sim_is_guarded_cosine:
  assumes "length a = length b"
  shows "(magnitude a = 0 \<or> magnitude b = 0 \<longrightarrow> sim a b = 0) \<and>
    (magnitude a \<noteq> 0 \<and> magnitude b \<noteq> 0 \<longrightarrow>
       magnitude a * magnitude b \<noteq> 0 \<and>
       sim a b = dot a b / (magnitude a * magnitude b)) \<and>
    (magnitude a = 0 \<longleftrightarrow> list_all (\<lambda>x. x = 0) a) \<and>
    (magnitude b = 0 \<longleftrightarrow> list_all (\<lambda>x. x = 0) b)"
  by (simp add: sim_def magnitude_zero_iff)

theorem sim_is_guarded_cosine_witness:
  "length [3, 4 :: real] = length [0, 1 :: real] \<and>
   magnitude [3, 4] = 5 \<and> magnitude [0, 1] = 1 \<and> dot [3, 4] [0, 1] = 4 \<and>
   sim [3, 4] [0, 1] = 4 / 5 \<and>
   magnitude [0, 0] = 0 \<and> sim [0, 0] [0, 1] = 0"
  using sim_is_guarded_cosine [of "[3, 4]" "[0, 1]"]
    sim_is_guarded_cosine [of "[0, 0]" "[0, 1]"]
  by (simp add: sim_def magnitude_def dot_def)

lemma count_matches_filter:
  "count_matches match_keys ignore_keys actual expected =
     length (filter (record_matches match_keys ignore_keys actual) expected)"
  by (induction expected) simp_all

lemma record_matches_iff:
  "record_matches match_keys ignore_keys actual e \<longleftrightarrow>
     (\<exists>a. find (joined match_keys e) actual = Some a \<and> fields_agree ignore_keys e a)"
  by (simp add: record_matches_def split: option.splits)

text \<open>
  C7: for every non-empty expected sequence and every actual sequence, the evaluator
  returns a report (no error) whose overall accuracy is the number of expected records
  whose joined actual record agrees on all non-ignored fields, divided by the number of
  expected records; an expected record for which no actual record is joined adds nothing
  to the count, and the evaluation of a sequence that contains it still returns a report.
\<close>

theorem evaluate_overall_accuracy:
  assumes "expected \<noteq> []"
  shows "evaluate match_keys ignore_keys expected actual =
      Inr \<lparr>overall =
             real (length (filter
               (\<lambda>e. \<exists>a. find (joined match_keys e) actual = Some a \<and>
                         fields_agree ignore_keys e a) expected)) /
             real (length expected)\<rparr> \<and>
    (find (joined match_keys e) actual = None \<longrightarrow>
       evaluate match_keys ignore_keys (e # expected) actual =
         Inr \<lparr>overall =
                real (count_matches match_keys ignore_keys actual expected) /
                real (Suc (length expected))\<rparr> \<and>
       count_matches match_keys ignore_keys actual (e # expected) =
         count_matches match_keys ignore_keys actual expected)"
proof -
  have "record_matches match_keys ignore_keys actual =
      (\<lambda>e. \<exists>a. find (joined match_keys e) actual = Some a \<and> fields_agree ignore_keys e a)"
    by (rule ext) (rule record_matches_iff)
  with assms show ?thesis
    by (simp add: evaluate_def count_matches_filter record_matches_def)
qed

theorem evaluate_overall_accuracy_witness:
  "[to_dict \<lparr>page_number = 0, classification = ''A'', similarity = 1\<rparr>,
    to_dict \<lparr>page_number = 1, classification = ''B'', similarity = 1\<rparr>] \<noteq> [] \<and>
   find (joined [''page_number'']
          (to_dict \<lparr>page_number = 1, classification = ''B'', similarity = 1\<rparr>))
     [to_dict \<lparr>page_number = 0, classification = ''A'', similarity = 4 / 5\<rparr>] = None \<and>
   classification_evaluator
     [to_dict \<lparr>page_number = 0, classification = ''A'', similarity = 1\<rparr>,
      to_dict \<lparr>page_number = 1, classification = ''B'', similarity = 1\<rparr>]
     [to_dict \<lparr>page_number = 0, classification = ''A'', similarity = 4 / 5\<rparr>] =
     Inr \<lparr>overall = 1 / 2\<rparr> \<and>
   classification_evaluator
     [to_dict \<lparr>page_number = 0, classification = ''A'', similarity = 1\<rparr>]
     [to_dict \<lparr>page_number = 0, classification = ''Unclassified (A)'',
               similarity = 1 / 2\<rparr>] =
     Inr \<lparr>overall = 0\<rparr>"
  using evaluate_overall_accuracy
    [of "[to_dict \<lparr>page_number = 0, classification = ''A'', similarity = 1\<rparr>,
          to_dict \<lparr>page_number = 1, classification = ''B'', similarity = 1\<rparr>]"
        "[''page_number'']" "[''page_number'', ''similarity'']"
        "[to_dict \<lparr>page_number = 0, classification = ''A'', similarity = 4 / 5\<rparr>]"
        "to_dict \<lparr>page_number = 1, classification = ''B'', similarity = 1\<rparr>"]
  by (simp add: classification_evaluator_def evaluate_def record_matches_def joined_def
      fields_agree_def to_dict_def)

end
